theory Spec2Isabelle
  imports Main
begin

section \<open>Data model of the bot (src/index.js)\<close>

text \<open>
  The conversation states are the values of the object \<open>STATES\<close> (lines 78-87).
\<close>

datatype state =
    NONE
  | SENDMSG_ASK_NUMBER
  | SENDMSG_ASK_MESSAGE
  | YT_ASK_URL
  | UPLOAD_WAIT_FILE
  | GETFILE_ASK_PIN
  | AI_ASK_QUERY
  | DOWNLOAD_ASK_URL

text \<open>
  A Telegram file object (document, video, audio or one photo size). The fields
  \<open>file_id\<close> and \<open>file_unique_id\<close> are always sent by the platform; the other three
  are optional, and the handler reads them with \<open>||\<close> and \<open>&&\<close>, so an absent field is
  \<open>None\<close> here.
\<close>

record file_obj =
  file_id :: string
  file_unique_id :: string
  file_name :: "string option"
  mime_type :: "string option"
  file_size :: "nat option"

text \<open>
  The inbound message, with the fields the handler reads on lines 247-252 and 361.
  \<open>msg.photo\<close> is an array of photo sizes.
\<close>

record message =
  msg_chat_id :: int
  msg_from_id :: "int option"
  msg_text :: "string option"
  msg_document :: "file_obj option"
  msg_photo :: "file_obj list option"
  msg_video :: "file_obj option"
  msg_audio :: "file_obj option"

text \<open>
  A document of the Firestore collection, as written on lines 355-363 and read on
  lines 396-399. A document read back may lack any field (the reader guards each one),
  so every field is optional. The field \<open>upload_timestamp\<close> is a value the server
  assigns; nothing in the program reads it and it is left out.
\<close>

record file_metadata =
  md_file_id :: "string option"
  md_file_name :: "string option"
  md_mime_type :: "string option"
  md_file_size :: "nat option"
  md_pin :: "string option"
  md_uploaded_by :: "int option"

text \<open>
  The mutable state. \<open>userStates\<close> (line 76) is one JavaScript \<open>Map\<close> with two kinds of
  keys: the number \<open>chatId\<close>, whose value is a state, and the string
  \<open>chatId + '_number'\<close>, whose value is the phone number. A number key never equals a
  string key and the string keys of two chats differ, so the map is the pair of maps
  \<open>userStates\<close> and \<open>userNumbers\<close>. \<open>files\<close> is the Firestore collection
  \<open>FILES_COLLECTION\<close>, keyed by document id.
\<close>

record world =
  userStates :: "int \<rightharpoonup> state"
  userNumbers :: "int \<rightharpoonup> string"
  files :: "string \<rightharpoonup> file_metadata"

text \<open>
  Every text the bot sends, one constructor per distinct message text of the source
  (the line numbers are those of \<open>bot.sendMessage\<close> calls); a text built from a value
  carries the value.
\<close>

datatype reply =
    ValidNumberExample            \<comment> \<open>263\<close>
  | EnterMessagePrompt            \<comment> \<open>269\<close>
  | ValidNumberPlease             \<comment> \<open>271\<close>
  | SendingMessage                \<comment> \<open>279\<close>
  | MessageSent                   \<comment> \<open>283\<close>
  | MessageFailed                 \<comment> \<open>285\<close>
  | NumberOrMessageError          \<comment> \<open>288\<close>
  | EnterMessagePlease            \<comment> \<open>293\<close>
  | YtUnavailable                 \<comment> \<open>297, 502\<close>
  | ValidUrlPlease                \<comment> \<open>304\<close>
  | ValidFilePlease               \<comment> \<open>329\<close>
  | UploadTooLarge nat            \<comment> \<open>337, with the declared size\<close>
  | UploadUnavailable             \<comment> \<open>344, 508\<close>
  | StoringFile                   \<comment> \<open>349\<close>
  | UploadSuccess string          \<comment> \<open>369, with the PIN\<close>
  | UploadError                   \<comment> \<open>377\<close>
  | DownloadUnavailable           \<comment> \<open>384, 515\<close>
  | SearchingPin string           \<comment> \<open>389, with the normalised PIN\<close>
  | FileIdMissing                 \<comment> \<open>402\<close>
  | StoredTooLarge nat            \<comment> \<open>412, with the stored size\<close>
  | DownloadingFile               \<comment> \<open>419\<close>
  | FileSent                      \<comment> \<open>433, 227\<close>
  | TelegramSendError             \<comment> \<open>440\<close>
  | InvalidPin                    \<comment> \<open>445\<close>
  | LookupError                   \<comment> \<open>450\<close>
  | EnterPinPrompt                \<comment> \<open>454, 519\<close>
  | AiUnavailable                 \<comment> \<open>459, 522, 160\<close>
  | AiPreparing                   \<comment> \<open>463\<close>
  | AiText string                 \<comment> \<open>465, the model's answer\<close>
  | AiError                       \<comment> \<open>170\<close>
  | EnterAiQuery                  \<comment> \<open>468, 526\<close>
  | Welcome                       \<comment> \<open>479\<close>
  | EnterNumberPrompt             \<comment> \<open>499\<close>
  | EnterUrlPrompt                \<comment> \<open>505\<close>
  | SendFilePrompt                \<comment> \<open>512\<close>
  | Cancelled                     \<comment> \<open>530\<close>
  | NotUnderstood                 \<comment> \<open>533, 541, 553\<close>
  | FileWithoutCommand            \<comment> \<open>547\<close>
  | DownloadStarted               \<comment> \<open>176\<close>
  | UrlTooLarge nat               \<comment> \<open>219, with the downloaded size\<close>
  | SendingFile                   \<comment> \<open>225\<close>
  | DownloadFailed string         \<comment> \<open>233, with the error's message\<close>

text \<open>
  What \<open>bot.sendDocument\<close> is given: a local path (line 226, the downloaded file, named
  by its file name) or a platform file id with a file name (lines 428-432).
\<close>

datatype doc_source = LocalFile string | ByFileId string string

text \<open>
  The calls the handler makes to the outside, in the order it makes them.
  \<open>bot.sendMessage\<close> is taken to deliver; \<open>bot.sendDocument\<close>, the relay API, the AI
  model and the URL download are recorded as calls, and their outcome is read from the
  environment below.
\<close>

datatype action =
    SendMessage int reply
  | SendDocument int doc_source
  | RelayCall string string
  | AiCall string
  | FetchCall string

text \<open>
  Outcome of the HTTP call of \<open>sendMessageViaApi\<close> (lines 129-154): the call throws, the
  response is not ok, or the response is ok and its JSON body has the given \<open>status\<close>
  field (absent is \<open>None\<close>).
\<close>

datatype api_outcome = ApiThrows | ApiNotOk | ApiStatus "string option"

text \<open>
  Outcome of lines 181-200 of \<open>downloadFileFromUrl\<close> (temporary directory, HTTP
  request, file name): they throw an error with a message (also when the response is not
  ok, line 185), or the response is ok, with the file name of lines 189-200 and the
  number of bytes of its body.
\<close>

datatype fetch_outcome = FetchThrows string | Fetched string nat

text \<open>
  Everything the handler reads from outside during one invocation.
  \<^item> \<open>files_available\<close>: \<open>FILES_COLLECTION\<close> is not null (lines 70, 100, 343, 383);
  \<^item> \<open>gemini_available\<close>: \<open>geminiModel\<close> is not null (lines 159, 458, 521);
  \<^item> \<open>rnd i\<close>: the \<open>i\<close>-th value of \<open>Math.random()\<close>, as the number it is scaled to;
  \<^item> \<open>get_throws k\<close>: the Firestore \<open>get\<close> of the \<open>k\<close>-th call of \<open>isPinUnique\<close> throws;
  \<^item> \<open>set_throws\<close>: the Firestore \<open>set\<close> of line 365 throws for a reason outside the
    document it is given (the network, the service);
  \<^item> \<open>lookup_throws\<close>: the Firestore \<open>get\<close> of line 393 throws;
  \<^item> \<open>relay_api\<close>, \<open>ai_model\<close> (\<open>None\<close>: the call throws), \<open>fetch_url\<close>: the external services;
  \<^item> \<open>send_document_throws\<close>: \<open>bot.sendDocument\<close> throws, with the error's message.
\<close>

record env =
  files_available :: bool
  gemini_available :: bool
  rnd :: "nat \<Rightarrow> nat"
  get_throws :: "nat \<Rightarrow> bool"
  set_throws :: bool
  lookup_throws :: bool
  relay_api :: "string \<Rightarrow> string \<Rightarrow> api_outcome"
  ai_model :: "string \<Rightarrow> string option"
  fetch_url :: "string \<Rightarrow> fetch_outcome"
  send_document_throws :: "string option"

text \<open>The only exception that escapes the handler: reading a property of \<open>undefined\<close>.\<close>

datatype error = TypeError

section \<open>Strings\<close>

text \<open>
  JavaScript string operations the handler uses. A text is a list of characters;
  \<open>toUpperCase\<close> and \<open>trim\<close> are modelled on ASCII (letters \<open>a\<close> to \<open>z\<close>, and the
  white space characters tab, line feed, vertical tab, form feed, carriage return and
  space); other characters are left as they are.
\<close>

definition startsWith :: "string \<Rightarrow> string \<Rightarrow> bool" where
  "startsWith s p = (take (length p) s = p)"

definition is_space :: "char \<Rightarrow> bool" where
  "is_space c = (c = CHR 0x09 \<or> c = CHR 0x0A \<or> c = CHR 0x0B \<or> c = CHR 0x0C
                 \<or> c = CHR 0x0D \<or> c = CHR '' '')"

definition trim :: "string \<Rightarrow> string" where
  "trim s = rev (dropWhile is_space (rev (dropWhile is_space s)))"

definition upper_char :: "char \<Rightarrow> char" where
  "upper_char c =
     (if (97::nat) \<le> of_char c \<and> of_char c \<le> (122::nat)
      then char_of (of_char c - (32::nat)) else c)"

definition toUpperCase :: "string \<Rightarrow> string" where
  "toUpperCase s = map upper_char s"

definition is_digit :: "char \<Rightarrow> bool" where
  "is_digit c = ((48::nat) \<le> of_char c \<and> of_char c \<le> (57::nat))"

text \<open>The test \<open>/^\d{10,}$/.test(s)\<close> of line 262: ten or more characters, all digits.\<close>

definition matches_number :: "string \<Rightarrow> bool" where
  "matches_number s = (10 \<le> length s \<and> list_all is_digit s)"

text \<open>\<open>s.charAt(i)\<close>: the one-character string at \<open>i\<close>, or the empty string out of range.\<close>

definition charAt :: "string \<Rightarrow> nat \<Rightarrow> string" where
  "charAt s i = (if i < length s then [s ! i] else [])"

text \<open>\<open>text.split(' ')[0]\<close> (line 475): the text up to its first space.\<close>

definition first_token :: "string \<Rightarrow> string" where
  "first_token s = takeWhile (\<lambda>c. c \<noteq> CHR '' '') s"

text \<open>Truthiness of an optional string and of an optional number.\<close>

definition truthy_str :: "string option \<Rightarrow> bool" where
  "truthy_str t = (case t of None \<Rightarrow> False | Some s \<Rightarrow> s \<noteq> [])"

definition truthy_num :: "nat option \<Rightarrow> bool" where
  "truthy_num n = (case n of None \<Rightarrow> False | Some k \<Rightarrow> k \<noteq> 0)"

text \<open>\<open>a || d\<close> on an optional string and on an optional number.\<close>

definition or_str :: "string option \<Rightarrow> string \<Rightarrow> string" where
  "or_str t d = (if truthy_str t then the t else d)"

definition or_num :: "nat option \<Rightarrow> nat \<Rightarrow> nat" where
  "or_num n d = (if truthy_num n then the n else d)"

text \<open>The test \<open>text && !text.startsWith('/')\<close> of lines 260, 274, 381 and 457.\<close>

definition plain_text :: "string option \<Rightarrow> bool" where
  "plain_text t = (truthy_str t \<and> \<not> startsWith (the t) ''/'')"

text \<open>The test \<open>text && text.startsWith('/')\<close> of line 474.\<close>

definition command_text :: "string option \<Rightarrow> bool" where
  "command_text t = (truthy_str t \<and> startsWith (the t) ''/'')"

section \<open>PIN generation (lines 90-121)\<close>

definition characters :: string where
  "characters = ''ABCDEFGHIJKLMNOPQRSTUVWXYZ0123456789''"

text \<open>
  \<open>generatePin\<close> (lines 90-97). The loop appends one character per round;
  \<open>Math.floor(Math.random() * characters.length)\<close> is a whole number from 0 up to, not
  including, \<open>characters.length\<close>: the draw \<open>r pos\<close> reduced modulo that length.
  \<open>pos\<close> counts the draws made so far.
\<close>

fun generatePin_loop :: "(nat \<Rightarrow> nat) \<Rightarrow> nat \<Rightarrow> nat \<Rightarrow> string \<Rightarrow> string" where
  "generatePin_loop r pos 0 result = result"
| "generatePin_loop r pos (Suc n) result =
     generatePin_loop r (Suc pos) n
       (result @ charAt characters (r pos mod length characters))"

definition generatePin :: "(nat \<Rightarrow> nat) \<Rightarrow> nat \<Rightarrow> nat \<Rightarrow> string" where
  "generatePin r pos len = generatePin_loop r pos len []"

text \<open>
  \<open>isPinUnique\<close> (lines 99-111), at its \<open>k\<close>-th call: false without a collection, false
  when the read throws, else whether no document has the PIN as its id.
\<close>

definition isPinUnique :: "env \<Rightarrow> (string \<rightharpoonup> file_metadata) \<Rightarrow> nat \<Rightarrow> string \<Rightarrow> bool" where
  "isPinUnique e fs k pin =
     (if \<not> files_available e then False
      else if get_throws e k then False
      else fs pin = None)"

text \<open>
  \<open>generateUniquePin\<close> (lines 113-121): \<open>while (true)\<close>, left only by the \<open>return\<close>.
  \<open>k\<close> counts the rounds; round \<open>k\<close> makes the draws \<open>k * len, ..., k * len + len - 1\<close>.
  The result \<open>None\<close> is the loop that never returns.
\<close>

partial_function (option) generateUniquePin ::
  "env \<Rightarrow> (string \<rightharpoonup> file_metadata) \<Rightarrow> nat \<Rightarrow> nat \<Rightarrow> string option" where
  "generateUniquePin e fs len k =
     (if isPinUnique e fs k (generatePin (rnd e) (k * len) len)
      then Some (generatePin (rnd e) (k * len) len)
      else generateUniquePin e fs len (Suc k))"

declare generateUniquePin.simps [code]

section \<open>External calls\<close>

text \<open>The constant \<open>TELEGRAM_FILE_LIMIT\<close> of lines 215, 333 and 408.\<close>

definition TELEGRAM_FILE_LIMIT :: nat where
  "TELEGRAM_FILE_LIMIT = 50 * 1024 * 1024"

text \<open>
  \<open>sendMessageViaApi\<close> (lines 124-155): true exactly when the call returns an ok response
  whose \<open>status\<close> is the string \<open>success\<close>; every failure is caught and gives false.
\<close>

definition sendMessageViaApi :: "env \<Rightarrow> string \<Rightarrow> string \<Rightarrow> bool" where
  "sendMessageViaApi e number messageText =
     (case relay_api e number messageText of
        ApiThrows \<Rightarrow> False
      | ApiNotOk \<Rightarrow> False
      | ApiStatus st \<Rightarrow> st = Some ''success'')"

text \<open>\<open>askGeminiAi\<close> (lines 158-172): the text it returns, which the handler then sends.\<close>

definition askGeminiAi :: "env \<Rightarrow> string \<Rightarrow> reply" where
  "askGeminiAi e query =
     (if \<not> gemini_available e then AiUnavailable
      else case ai_model e query of Some t \<Rightarrow> AiText t | None \<Rightarrow> AiError)"

text \<open>
  Line 203, \<open>fs.createWriteStream(filePath)\<close>. Line 5 binds \<open>fs\<close> to
  \<open>require('fs').promises\<close>, the promise API of the file system module, and that object
  has no member \<open>createWriteStream\<close>: the call is a call of \<open>undefined\<close> and throws a
  \<open>TypeError\<close> with this message, whatever the path.
\<close>

definition createWriteStream :: "string \<Rightarrow> string + unit" where
  "createWriteStream filePath = Inl ''fs.createWriteStream is not a function''"

text \<open>
  \<open>downloadFileFromUrl\<close> (lines 175-241): the calls it makes. An error thrown in the
  \<open>try\<close> block, by the request, by line 203 or by \<open>sendDocument\<close>, is reported by the
  \<open>catch\<close> block; the \<open>finally\<close> block only removes the temporary directory. The size
  test and the sending of lines 210-227 come after line 203.
\<close>

definition downloadFileFromUrl :: "env \<Rightarrow> string \<Rightarrow> int \<Rightarrow> action list" where
  "downloadFileFromUrl e url chatId =
     [SendMessage chatId DownloadStarted, FetchCall url] @
     (case fetch_url e url of
        FetchThrows m \<Rightarrow> [SendMessage chatId (DownloadFailed m)]
      | Fetched filename fileSize \<Rightarrow>
          (case createWriteStream filename of
             Inl m \<Rightarrow> [SendMessage chatId (DownloadFailed m)]
           | Inr fileStream \<Rightarrow>
               if fileSize > TELEGRAM_FILE_LIMIT
               then [SendMessage chatId (UrlTooLarge fileSize)]
               else [SendMessage chatId SendingFile,
                     SendDocument chatId (LocalFile filename)] @
                    (case send_document_throws e of
                       None \<Rightarrow> [SendMessage chatId FileSent]
                     | Some m \<Rightarrow> [SendMessage chatId (DownloadFailed m)])))"

section \<open>The message handler (lines 246-557)\<close>

text \<open>\<open>userStates.get(chatId) || STATES.NONE\<close> (line 254).\<close>

definition currentState :: "world \<Rightarrow> int \<Rightarrow> state" where
  "currentState w chatId = (case userStates w chatId of None \<Rightarrow> NONE | Some s \<Rightarrow> s)"

text \<open>\<open>userStates.delete(chatId)\<close> and \<open>userStates.delete(chatId + '_number')\<close>.\<close>

definition delete_state :: "int \<Rightarrow> world \<Rightarrow> world" where
  "delete_state chatId w = w\<lparr>userStates := (userStates w)(chatId := None)\<rparr>"

definition delete_number :: "int \<Rightarrow> world \<Rightarrow> world" where
  "delete_number chatId w = w\<lparr>userNumbers := (userNumbers w)(chatId := None)\<rparr>"

definition set_state :: "int \<Rightarrow> state \<Rightarrow> world \<Rightarrow> world" where
  "set_state chatId s w = w\<lparr>userStates := (userStates w)(chatId \<mapsto> s)\<rparr>"

definition set_number :: "int \<Rightarrow> string \<Rightarrow> world \<Rightarrow> world" where
  "set_number chatId n w = w\<lparr>userNumbers := (userNumbers w)(chatId \<mapsto> n)\<rparr>"

text \<open>
  How a branch of the state chain (lines 259-470) ends: it falls through to the command
  handlers of line 474, or it leaves the handler with \<open>return\<close>.
\<close>

datatype flow = FallThrough | Return

type_synonym outcome = "flow \<times> world \<times> action list"

text \<open>State \<open>SENDMSG_ASK_NUMBER\<close> (lines 259-272).\<close>

definition sendmsg_ask_number :: "world \<Rightarrow> message \<Rightarrow> outcome" where
  "sendmsg_ask_number w m =
     (let chatId = msg_chat_id m in
      if plain_text (msg_text m) then
        (let numberInput = the (msg_text m) in
         if \<not> matches_number numberInput
         then (Return, w, [SendMessage chatId ValidNumberExample])
         else (FallThrough,
               set_number chatId numberInput (set_state chatId SENDMSG_ASK_MESSAGE w),
               [SendMessage chatId EnterMessagePrompt]))
      else (FallThrough, w, [SendMessage chatId ValidNumberPlease]))"

text \<open>State \<open>SENDMSG_ASK_MESSAGE\<close> (lines 273-294).\<close>

definition sendmsg_ask_message :: "env \<Rightarrow> world \<Rightarrow> message \<Rightarrow> outcome" where
  "sendmsg_ask_message e w m =
     (let chatId = msg_chat_id m in
      if plain_text (msg_text m) then
        (let messageTextInput = the (msg_text m);
             number = userNumbers w chatId;
             acts =
               (if truthy_str number \<and> messageTextInput \<noteq> [] then
                  [SendMessage chatId SendingMessage,
                   RelayCall (the number) messageTextInput,
                   SendMessage chatId
                     (if sendMessageViaApi e (the number) messageTextInput
                      then MessageSent else MessageFailed)]
                else [SendMessage chatId NumberOrMessageError])
         in (FallThrough, delete_number chatId (delete_state chatId w), acts))
      else (FallThrough, w, [SendMessage chatId EnterMessagePlease]))"

text \<open>State \<open>YT_ASK_URL\<close> (lines 295-298).\<close>

definition yt_ask_url :: "world \<Rightarrow> message \<Rightarrow> outcome" where
  "yt_ask_url w m =
     (FallThrough, delete_state (msg_chat_id m) w,
      [SendMessage (msg_chat_id m) YtUnavailable])"

text \<open>State \<open>DOWNLOAD_ASK_URL\<close> (lines 299-305).\<close>

definition download_ask_url :: "env \<Rightarrow> world \<Rightarrow> message \<Rightarrow> outcome" where
  "download_ask_url e w m =
     (let chatId = msg_chat_id m; t = msg_text m in
      if truthy_str t \<and> (startsWith (the t) ''http://'' \<or> startsWith (the t) ''https://'')
      then (FallThrough, delete_state chatId w, downloadFileFromUrl e (the t) chatId)
      else (FallThrough, w, [SendMessage chatId ValidUrlPlease]))"

text \<open>
  Lines 307-326: the attachment the upload handler takes, with the file type and the
  file name it computes; \<open>None\<close> when the message has none. \<open>photo[photo.length - 1]\<close> of
  an empty array is \<open>undefined\<close>, and line 325 then reads a property of it.
\<close>

definition select_file :: "message \<Rightarrow> error + (file_obj \<times> string \<times> string) option" where
  "select_file m =
     (case msg_document m of
        Some d \<Rightarrow> Inr (Some (d, ''document'', or_str (file_name d) ''uploaded_file''))
      | None \<Rightarrow>
     (case msg_video m of
        Some v \<Rightarrow> Inr (Some (v, ''video'', or_str (file_name v) ''uploaded_file''))
      | None \<Rightarrow>
     (case msg_audio m of
        Some a \<Rightarrow> Inr (Some (a, ''audio'', or_str (file_name a) ''uploaded_file''))
      | None \<Rightarrow>
     (case msg_photo m of
        Some ps \<Rightarrow>
          if ps = [] then Inl TypeError
          else Inr (Some (last ps, ''photo'',
                          ''photo_'' @ file_unique_id (last ps) @ ''.jpg''))
      | None \<Rightarrow> Inr None))))"

text \<open>The object \<open>fileMetadata\<close> of lines 355-363.\<close>

definition fileMetadata :: "file_obj \<Rightarrow> string \<Rightarrow> string \<Rightarrow> int \<Rightarrow> file_metadata" where
  "fileMetadata fileObj fileName uniquePin fromId =
     \<lparr>md_file_id = Some (file_id fileObj),
      md_file_name = Some fileName,
      md_mime_type = Some (or_str (mime_type fileObj) ''application/octet-stream''),
      md_file_size = file_size fileObj,
      md_pin = Some uniquePin,
      md_uploaded_by = Some fromId\<rparr>"

text \<open>
  Lines 352-379, once \<open>generateUniquePin\<close> has returned \<open>uniquePin\<close>. Reading
  \<open>msg.from.id\<close> of a message without sender throws. The collection comes from
  \<open>admin.firestore()\<close> with its default settings (line 37), under which \<open>set\<close> throws
  for a document with a field that is \<open>undefined\<close>; of the fields of lines 355-363 only
  \<open>file_size\<close>, copied from the attachment on line 359, can be. All of these end in the
  \<open>catch\<close> block, as does a \<open>set\<close> that fails for another reason; the state is deleted
  after either way.
\<close>

definition store_file ::
  "env \<Rightarrow> world \<Rightarrow> message \<Rightarrow> file_obj \<Rightarrow> string \<Rightarrow> string \<Rightarrow> outcome" where
  "store_file e w m fileObj fileName uniquePin =
     (let chatId = msg_chat_id m in
      case msg_from_id m of
        None \<Rightarrow> (FallThrough, delete_state chatId w, [SendMessage chatId UploadError])
      | Some fromId \<Rightarrow>
          if file_size fileObj = None \<or> set_throws e
          then (FallThrough, delete_state chatId w, [SendMessage chatId UploadError])
          else (FallThrough,
                delete_state chatId
                  (w\<lparr>files := (files w)(uniquePin \<mapsto>
                                  fileMetadata fileObj fileName uniquePin fromId)\<rparr>),
                [SendMessage chatId (UploadSuccess uniquePin)]))"

text \<open>
  State \<open>UPLOAD_WAIT_FILE\<close> (lines 306-379). \<open>None\<close>: \<open>generateUniquePin\<close> never returns.
\<close>

definition upload_wait_file :: "env \<Rightarrow> world \<Rightarrow> message \<Rightarrow> (error + outcome) option" where
  "upload_wait_file e w m =
     (let chatId = msg_chat_id m in
      case select_file m of
        Inl err \<Rightarrow> Some (Inl err)
      | Inr None \<Rightarrow> Some (Inr (Return, w, [SendMessage chatId ValidFilePlease]))
      | Inr (Some (fileObj, fileType, fileName)) \<Rightarrow>
          if truthy_num (file_size fileObj) \<and> the (file_size fileObj) > TELEGRAM_FILE_LIMIT
          then Some (Inr (Return, delete_state chatId w,
                          [SendMessage chatId (UploadTooLarge (the (file_size fileObj)))]))
          else if \<not> files_available e
          then Some (Inr (Return, delete_state chatId w,
                          [SendMessage chatId UploadUnavailable]))
          else
            (case generateUniquePin e (files w) 6 0 of
               None \<Rightarrow> None
             | Some uniquePin \<Rightarrow>
                 (case store_file e w m fileObj fileName uniquePin of
                    (fl, w', acts) \<Rightarrow>
                      Some (Inr (fl, w', SendMessage chatId StoringFile # acts)))))"

text \<open>
  State \<open>GETFILE_ASK_PIN\<close> (lines 380-455). \<open>normalize_pin\<close> is line 382;
  \<open>send_stored_file\<close> is lines 396-442, for a document that exists.
\<close>

definition normalize_pin :: "string \<Rightarrow> string" where
  "normalize_pin t = toUpperCase (trim t)"

text \<open>
  Lines 382 and 393: the document read for the text the user typed, when the read does
  not throw.
\<close>

definition lookup_pin :: "world \<Rightarrow> string \<Rightarrow> file_metadata option" where
  "lookup_pin w t = files w (normalize_pin t)"

definition send_stored_file :: "env \<Rightarrow> world \<Rightarrow> int \<Rightarrow> file_metadata \<Rightarrow> outcome" where
  "send_stored_file e w chatId docData =
     (let telegramFileId = md_file_id docData;
          fileName = or_str (md_file_name docData) ''downloaded_file'';
          fileSize = or_num (md_file_size docData) 0
      in if \<not> truthy_str telegramFileId
         then (Return, delete_state chatId w, [SendMessage chatId FileIdMissing])
         else if fileSize > TELEGRAM_FILE_LIMIT
         then (Return, delete_state chatId w, [SendMessage chatId (StoredTooLarge fileSize)])
         else (FallThrough, delete_state chatId w,
               [SendMessage chatId DownloadingFile,
                SendDocument chatId (ByFileId (the telegramFileId) fileName),
                SendMessage chatId
                  (if send_document_throws e = None then FileSent else TelegramSendError)]))"

definition getfile_ask_pin :: "env \<Rightarrow> world \<Rightarrow> message \<Rightarrow> outcome" where
  "getfile_ask_pin e w m =
     (let chatId = msg_chat_id m in
      if plain_text (msg_text m) then
        (let pin = normalize_pin (the (msg_text m)) in
         if \<not> files_available e
         then (Return, delete_state chatId w, [SendMessage chatId DownloadUnavailable])
         else if lookup_throws e
         then (FallThrough, delete_state chatId w,
               [SendMessage chatId (SearchingPin pin), SendMessage chatId LookupError])
         else
           (case lookup_pin w (the (msg_text m)) of
              Some docData \<Rightarrow>
                (case send_stored_file e w chatId docData of
                   (fl, w', acts) \<Rightarrow> (fl, w', SendMessage chatId (SearchingPin pin) # acts))
            | None \<Rightarrow>
                (FallThrough, delete_state chatId w,
                 [SendMessage chatId (SearchingPin pin), SendMessage chatId InvalidPin])))
      else (FallThrough, w, [SendMessage chatId EnterPinPrompt]))"

text \<open>State \<open>AI_ASK_QUERY\<close> (lines 456-470).\<close>

definition ai_ask_query :: "env \<Rightarrow> world \<Rightarrow> message \<Rightarrow> outcome" where
  "ai_ask_query e w m =
     (let chatId = msg_chat_id m in
      if plain_text (msg_text m) then
        (if \<not> gemini_available e
         then (Return, delete_state chatId w, [SendMessage chatId AiUnavailable])
         else (FallThrough, delete_state chatId w,
               [SendMessage chatId AiPreparing,
                AiCall (the (msg_text m)),
                SendMessage chatId (askGeminiAi e (the (msg_text m)))]))
      else (FallThrough, w, [SendMessage chatId EnterAiQuery]))"

text \<open>The chain of lines 259-470, chosen by the state read on line 254.\<close>

definition conversation_handlers ::
  "env \<Rightarrow> world \<Rightarrow> message \<Rightarrow> (error + outcome) option" where
  "conversation_handlers e w m =
     (case currentState w (msg_chat_id m) of
        SENDMSG_ASK_NUMBER \<Rightarrow> Some (Inr (sendmsg_ask_number w m))
      | SENDMSG_ASK_MESSAGE \<Rightarrow> Some (Inr (sendmsg_ask_message e w m))
      | YT_ASK_URL \<Rightarrow> Some (Inr (yt_ask_url w m))
      | DOWNLOAD_ASK_URL \<Rightarrow> Some (Inr (download_ask_url e w m))
      | UPLOAD_WAIT_FILE \<Rightarrow> upload_wait_file e w m
      | GETFILE_ASK_PIN \<Rightarrow> Some (Inr (getfile_ask_pin e w m))
      | AI_ASK_QUERY \<Rightarrow> Some (Inr (ai_ask_query e w m))
      | NONE \<Rightarrow> Some (Inr (FallThrough, w, [])))"

text \<open>
  The command handlers (lines 474-534), for a text that starts with \<open>/\<close>.
\<close>

definition run_command :: "env \<Rightarrow> world \<Rightarrow> int \<Rightarrow> string \<Rightarrow> world \<times> action list" where
  "run_command e w chatId command =
     (if command = ''/start'' then (w, [SendMessage chatId Welcome])
      else if command = ''/sendmsg''
      then (set_state chatId SENDMSG_ASK_NUMBER w, [SendMessage chatId EnterNumberPrompt])
      else if command = ''/yt_download''
      then (set_state chatId YT_ASK_URL w, [SendMessage chatId YtUnavailable])
      else if command = ''/download_url''
      then (set_state chatId DOWNLOAD_ASK_URL w, [SendMessage chatId EnterUrlPrompt])
      else if command = ''/upload_file''
      then (if \<not> files_available e then (w, [SendMessage chatId UploadUnavailable])
            else (set_state chatId UPLOAD_WAIT_FILE w, [SendMessage chatId SendFilePrompt]))
      else if command = ''/get_file''
      then (if \<not> files_available e then (w, [SendMessage chatId DownloadUnavailable])
            else (set_state chatId GETFILE_ASK_PIN w, [SendMessage chatId EnterPinPrompt]))
      else if command = ''/ask_ai''
      then (if \<not> gemini_available e then (w, [SendMessage chatId AiUnavailable])
            else (set_state chatId AI_ASK_QUERY w, [SendMessage chatId EnterAiQuery]))
      else if command = ''/cancel''
      then (delete_number chatId (delete_state chatId w), [SendMessage chatId Cancelled])
      else (w, [SendMessage chatId NotUnderstood]))"

text \<open>
  Lines 474-556. \<open>cur\<close> is the constant \<open>currentState\<close> read on line 254, before the state
  chain ran.
\<close>

definition command_handlers ::
  "env \<Rightarrow> state \<Rightarrow> world \<Rightarrow> message \<Rightarrow> world \<times> action list" where
  "command_handlers e cur w m =
     (let chatId = msg_chat_id m in
      if command_text (msg_text m)
      then run_command e w chatId (first_token (the (msg_text m)))
      else if cur = NONE then
        (if truthy_str (msg_text m) then (w, [SendMessage chatId NotUnderstood])
         else if msg_document m \<noteq> None \<or> msg_photo m \<noteq> None
                 \<or> msg_video m \<noteq> None \<or> msg_audio m \<noteq> None
         then (w, [SendMessage chatId FileWithoutCommand])
         else (w, [SendMessage chatId NotUnderstood]))
      else (w, []))"

text \<open>
  The handler \<open>bot.on('message', ...)\<close>: the new state and the calls made, an escaping
  exception (\<open>Inl\<close>), or \<open>None\<close> when it never returns.
\<close>

definition on_message ::
  "env \<Rightarrow> world \<Rightarrow> message \<Rightarrow> (error + world \<times> action list) option" where
  "on_message e w m =
     (case conversation_handlers e w m of
        None \<Rightarrow> None
      | Some (Inl err) \<Rightarrow> Some (Inl err)
      | Some (Inr (Return, w', acts)) \<Rightarrow> Some (Inr (w', acts))
      | Some (Inr (FallThrough, w', acts)) \<Rightarrow>
          (case command_handlers e (currentState w (msg_chat_id m)) w' m of
             (w'', acts') \<Rightarrow> Some (Inr (w'', acts @ acts'))))"

section \<open>Rounds of the PIN loop\<close>

text \<open>The candidate drawn in round \<open>k\<close> of \<open>generateUniquePin\<close>, and whether
  \<open>isPinUnique\<close> accepts it.\<close>

definition candidate :: "env \<Rightarrow> nat \<Rightarrow> nat \<Rightarrow> string" where
  "candidate e len k = generatePin (rnd e) (k * len) len"

definition attempt_ok :: "env \<Rightarrow> (string \<rightharpoonup> file_metadata) \<Rightarrow> nat \<Rightarrow> nat \<Rightarrow> bool" where
  "attempt_ok e fs len k = isPinUnique e fs k (candidate e len k)"

section \<open>Two uploads at once\<close>

text \<open>
  Lines 353-365 touch the collection at two kinds of points, each behind an \<open>await\<close>:
  the read of \<open>isPinUnique\<close> (line 105), once per round, and the \<open>set\<close> of line 365.
  Between two such points another execution may run. An execution is therefore in one
  of these positions: about to make the read of round \<open>k\<close>; \<open>generateUniquePin\<close> has
  returned a PIN and the \<open>set\<close> is next; the \<open>set\<close> is done; the \<open>set\<close> threw.
\<close>

datatype issuance = Checking nat | Issued string | Written string | Aborted string

text \<open>
  One step of one execution on the shared collection. \<open>mk\<close> builds the document the
  execution stores under its PIN.
\<close>

fun issuance_step ::
  "env \<Rightarrow> (string \<Rightarrow> file_metadata) \<Rightarrow> (string \<rightharpoonup> file_metadata) \<times> issuance
     \<Rightarrow> (string \<rightharpoonup> file_metadata) \<times> issuance" where
  "issuance_step e mk (fs, Checking k) =
     (if isPinUnique e fs k (generatePin (rnd e) (k * 6) 6)
      then (fs, Issued (generatePin (rnd e) (k * 6) 6))
      else (fs, Checking (Suc k)))"
| "issuance_step e mk (fs, Issued pin) =
     (if set_throws e then (fs, Aborted pin) else (fs(pin \<mapsto> mk pin), Written pin))"
| "issuance_step e mk (fs, Written pin) = (fs, Written pin)"
| "issuance_step e mk (fs, Aborted pin) = (fs, Aborted pin)"

text \<open>
  Two executions \<open>A\<close> and \<open>B\<close> under a schedule: \<open>True\<close> lets \<open>A\<close> make its next step,
  \<open>False\<close> lets \<open>B\<close>.
\<close>

fun interleave ::
  "env \<Rightarrow> (string \<Rightarrow> file_metadata) \<Rightarrow> env \<Rightarrow> (string \<Rightarrow> file_metadata) \<Rightarrow> bool list
     \<Rightarrow> (string \<rightharpoonup> file_metadata) \<times> issuance \<times> issuance
     \<Rightarrow> (string \<rightharpoonup> file_metadata) \<times> issuance \<times> issuance" where
  "interleave eA mkA eB mkB [] cfg = cfg"
| "interleave eA mkA eB mkB (True # sched) (fs, a, b) =
     (case issuance_step eA mkA (fs, a) of
        (fs', a') \<Rightarrow> interleave eA mkA eB mkB sched (fs', a', b))"
| "interleave eA mkA eB mkB (False # sched) (fs, a, b) =
     (case issuance_step eB mkB (fs, b) of
        (fs', b') \<Rightarrow> interleave eA mkA eB mkB sched (fs', a, b'))"

section \<open>Worlds the handler can reach\<close>

text \<open>
  The process starts with an empty \<open>userStates\<close> map (line 76) and whatever the
  collection holds; the map changes only when the handler runs to its end, and the
  collection may be written by other processes in between.
\<close>

inductive reachable :: "world \<Rightarrow> bool" where
  start: "reachable \<lparr>userStates = Map.empty, userNumbers = Map.empty, files = fs\<rparr>"
| step: "reachable w \<Longrightarrow> on_message e w m = Some (Inr (w', acts)) \<Longrightarrow> reachable w'"
| store: "reachable w \<Longrightarrow> reachable (w\<lparr>files := fs\<rparr>)"

text \<open>
  In a reachable world a chat in state \<open>SENDMSG_ASK_MESSAGE\<close> has a stored number that
  passed the test of line 262: both are written together on lines 266-267, and the
  number is deleted only together with the state.
\<close>

definition has_number :: "world \<Rightarrow> bool" where
  "has_number w =
     (\<forall>c. userStates w c = Some SENDMSG_ASK_MESSAGE \<longrightarrow>
          (\<exists>n. userNumbers w c = Some n \<and> matches_number n))"

section \<open>A sequence of messages\<close>

text \<open>
  The webhook (lines 562-576) hands the handler one update at a time; a conversation is
  the handler run on one message after the other, each on the state the one before
  left. The calls are collected in order.
\<close>

fun handle_all ::
  "env \<Rightarrow> world \<Rightarrow> message list \<Rightarrow> (error + world \<times> action list) option" where
  "handle_all e w [] = Some (Inr (w, []))"
| "handle_all e w (m # ms) =
     (case on_message e w m of
        None \<Rightarrow> None
      | Some (Inl err) \<Rightarrow> Some (Inl err)
      | Some (Inr (w', acts)) \<Rightarrow>
          (case handle_all e w' ms of
             None \<Rightarrow> None
           | Some (Inl err) \<Rightarrow> Some (Inl err)
           | Some (Inr (w'', acts')) \<Rightarrow> Some (Inr (w'', acts @ acts'))))"

section \<open>Sample inputs\<close>

text \<open>An environment in which every service answers, and every draw is 0.\<close>

definition sample_env :: env where
  "sample_env =
     \<lparr>files_available = True, gemini_available = True, rnd = (\<lambda>_. 0),
      get_throws = (\<lambda>_. False), set_throws = False, lookup_throws = False,
      relay_api = (\<lambda>_ _. ApiStatus (Some ''success'')),
      ai_model = (\<lambda>_. Some ''ok''),
      fetch_url = (\<lambda>_. Fetched ''report.pdf'' 1000),
      send_document_throws = None\<rparr>"

definition text_message :: "int \<Rightarrow> string \<Rightarrow> message" where
  "text_message chatId t =
     \<lparr>msg_chat_id = chatId, msg_from_id = Some 1, msg_text = Some t,
      msg_document = None, msg_photo = None, msg_video = None, msg_audio = None\<rparr>"

definition fresh :: world where
  "fresh = \<lparr>userStates = Map.empty, userNumbers = Map.empty, files = Map.empty\<rparr>"

definition sample_file :: "string \<Rightarrow> nat option \<Rightarrow> file_obj" where
  "sample_file fid sz =
     \<lparr>file_id = fid, file_unique_id = ''u1'', file_name = Some ''a.bin'',
      mime_type = None, file_size = sz\<rparr>"

definition document_message :: "int \<Rightarrow> string \<Rightarrow> nat option \<Rightarrow> message" where
  "document_message chatId fid sz =
     \<lparr>msg_chat_id = chatId, msg_from_id = Some 1, msg_text = None,
      msg_document = Some (sample_file fid sz),
      msg_photo = None, msg_video = None, msg_audio = None\<rparr>"

definition chat_in :: "int \<Rightarrow> state \<Rightarrow> (string \<rightharpoonup> file_metadata) \<Rightarrow> world" where
  "chat_in chatId s fs =
     \<lparr>userStates = [chatId \<mapsto> s], userNumbers = Map.empty, files = fs\<rparr>"

definition sample_record :: "string \<Rightarrow> nat option \<Rightarrow> file_metadata" where
  "sample_record fid sz =
     \<lparr>md_file_id = Some fid, md_file_name = Some ''a.bin'',
      md_mime_type = Some ''application/octet-stream'', md_file_size = sz,
      md_pin = Some ''AAAAAA'', md_uploaded_by = Some 1\<rparr>"

section \<open>Facts about PIN generation\<close>

lemma gup_unfold:
  "generateUniquePin e fs len k =
     (if attempt_ok e fs len k then Some (candidate e len k)
      else generateUniquePin e fs len (Suc k))"
  by (subst generateUniquePin.simps) (simp add: attempt_ok_def candidate_def)

lemma gup_first:
  "attempt_ok e fs len (k + d) \<Longrightarrow> (\<forall>j<d. \<not> attempt_ok e fs len (k + j))
   \<Longrightarrow> generateUniquePin e fs len k = Some (candidate e len (k + d))"
proof (induction d arbitrary: k)
  case 0
  then show ?case by (subst gup_unfold) simp
next
  case (Suc d)
  from Suc.prems(2) have no: "\<not> attempt_ok e fs len k" by force
  have "\<forall>j<d. \<not> attempt_ok e fs len (Suc k + j)"
    using Suc.prems(2) by (metis Suc_less_eq add_Suc_shift)
  with Suc.IH[of "Suc k"] Suc.prems(1)
  have "generateUniquePin e fs len (Suc k) = Some (candidate e len (Suc k + d))" by simp
  with no show ?case by (subst gup_unfold) simp
qed

lemma gup_Some:
  "generateUniquePin e fs len k = Some p \<Longrightarrow>
     \<exists>j\<ge>k. attempt_ok e fs len j \<and> p = candidate e len j"
proof (induction rule: generateUniquePin.raw_induct[rotated 1, consumes 1])
  case (1 gup e fs len k p)
  show ?case
  proof (cases "attempt_ok e fs len k")
    case True
    with 1(2) show ?thesis by (auto simp: attempt_ok_def candidate_def)
  next
    case False
    with 1(2) have "gup e fs len (Suc k) = Some p" by (simp add: attempt_ok_def candidate_def)
    from 1(1)[OF this] show ?thesis using Suc_leD by blast
  qed
qed

lemma gup_None:
  assumes "\<forall>j\<ge>k. \<not> attempt_ok e fs len j"
  shows "generateUniquePin e fs len k = None"
proof (cases "generateUniquePin e fs len k")
  case None then show ?thesis .
next
  case (Some p)
  from gup_Some[OF this] assms show ?thesis by blast
qed

lemma length_loop: "length (generatePin_loop r pos n acc) = length acc + n"
  by (induction n arbitrary: pos acc) (simp_all add: charAt_def characters_def)






lemma loop_all_zero:
  "generatePin_loop (\<lambda>_. 0) pos n acc = acc @ replicate n CHR ''A''"
  by (induction n arbitrary: pos acc)
     (simp_all add: charAt_def characters_def replicate_app_Cons_same)

lemma candidate_all_zero: "candidate sample_env 6 k = ''AAAAAA''"
  by (simp add: candidate_def generatePin_def loop_all_zero sample_env_def numeral_eq_Suc)

lemma generatePin_all_zero: "generatePin (rnd sample_env) (k * 6) 6 = ''AAAAAA''"
  using candidate_all_zero[of k] by (simp add: candidate_def)

lemma issuance_reaches:
  "attempt_ok e fs 6 (k + d) \<Longrightarrow> (\<forall>j<d. \<not> attempt_ok e fs 6 (k + j))
   \<Longrightarrow> (issuance_step e mk ^^ Suc d) (fs, Checking k) = (fs, Issued (candidate e 6 (k + d)))"
proof (induction d arbitrary: k)
  case 0
  then show ?case by (simp add: attempt_ok_def candidate_def)
next
  case (Suc d)
  from Suc.prems(2) have no: "\<not> attempt_ok e fs 6 k" by force
  have "\<forall>j<d. \<not> attempt_ok e fs 6 (Suc k + j)"
    using Suc.prems(2) by (metis Suc_less_eq add_Suc_shift)
  with Suc.IH[of "Suc k"] Suc.prems(1)
  have "(issuance_step e mk ^^ Suc d) (fs, Checking (Suc k)) = (fs, Issued (candidate e 6 (Suc k + d)))"
    by simp
  moreover have "issuance_step e mk (fs, Checking k) = (fs, Checking (Suc k))"
    using no by (simp add: attempt_ok_def candidate_def)
  ultimately show ?case by (simp add: funpow_swap1)
qed

text \<open>
  The steps of one execution, left alone, are the rounds of \<open>generateUniquePin\<close>: when
  the function returns a PIN, the steps reach \<open>Issued\<close> with that PIN and the collection
  unchanged.
\<close>

lemma issuance_follows_generateUniquePin:
  assumes "generateUniquePin e fs 6 k = Some p"
  shows "\<exists>n. (issuance_step e mk ^^ n) (fs, Checking k) = (fs, Issued p)"
proof -
  from gup_Some[OF assms] obtain j where "k \<le> j" "attempt_ok e fs 6 j" by blast
  then have ex: "\<exists>d. attempt_ok e fs 6 (k + d)" by (metis le_Suc_ex)
  define d where "d = (LEAST d. attempt_ok e fs 6 (k + d))"
  have ok: "attempt_ok e fs 6 (k + d)" unfolding d_def using ex by (rule LeastI_ex)
  have no: "\<forall>j<d. \<not> attempt_ok e fs 6 (k + j)"
    unfolding d_def using not_less_Least by blast
  from gup_first[OF ok no] assms have "p = candidate e 6 (k + d)" by simp
  with issuance_reaches[OF ok no, of mk] show ?thesis by blast
qed

lemma sample_pin: "generateUniquePin sample_env Map.empty 6 0 = Some ''AAAAAA''"
  by code_simp

lemma sample_normalize: "normalize_pin ''aaaaaa'' = ''AAAAAA''"
  by code_simp

section \<open>Facts about the handler\<close>

lemmas world_defs = delete_state_def delete_number_def set_state_def set_number_def
  currentState_def

lemmas text_defs = plain_text_def command_text_def truthy_str_def startsWith_def
  first_token_def

lemmas sample_defs = sample_env_def text_message_def fresh_def chat_in_def
  document_message_def sample_file_def sample_record_def

lemma has_number_ask_number:
  "has_number w \<Longrightarrow> sendmsg_ask_number w m = (fl, w', acts) \<Longrightarrow> has_number w'"
  by (auto simp: has_number_def sendmsg_ask_number_def Let_def set_state_def set_number_def
      split: if_splits)

lemma has_number_ask_message:
  "has_number w \<Longrightarrow> sendmsg_ask_message e w m = (fl, w', acts) \<Longrightarrow> has_number w'"
  by (auto simp: has_number_def sendmsg_ask_message_def Let_def delete_state_def
      delete_number_def split: if_splits)

lemma has_number_yt:
  "has_number w \<Longrightarrow> yt_ask_url w m = (fl, w', acts) \<Longrightarrow> has_number w'"
  by (auto simp: has_number_def yt_ask_url_def delete_state_def split: if_splits)

lemma has_number_download:
  "has_number w \<Longrightarrow> download_ask_url e w m = (fl, w', acts) \<Longrightarrow> has_number w'"
  by (auto simp: has_number_def download_ask_url_def Let_def delete_state_def
      split: if_splits)

lemma has_number_upload:
  "has_number w \<Longrightarrow> upload_wait_file e w m = Some (Inr (fl, w', acts)) \<Longrightarrow> has_number w'"
  by (auto simp: has_number_def upload_wait_file_def store_file_def Let_def delete_state_def
      split: if_splits sum.splits option.splits prod.splits)

lemma has_number_getfile:
  "has_number w \<Longrightarrow> getfile_ask_pin e w m = (fl, w', acts) \<Longrightarrow> has_number w'"
  by (auto simp: has_number_def getfile_ask_pin_def send_stored_file_def Let_def
      delete_state_def split: if_splits option.splits)

lemma has_number_ai:
  "has_number w \<Longrightarrow> ai_ask_query e w m = (fl, w', acts) \<Longrightarrow> has_number w'"
  by (auto simp: has_number_def ai_ask_query_def Let_def delete_state_def split: if_splits)

lemma has_number_command:
  "has_number w \<Longrightarrow> command_handlers e cur w m = (w', acts) \<Longrightarrow> has_number w'"
  by (auto simp: has_number_def command_handlers_def run_command_def Let_def
      delete_state_def delete_number_def set_state_def split: if_splits)

lemma has_number_conversation:
  "has_number w \<Longrightarrow> conversation_handlers e w m = Some (Inr (fl, w', acts))
   \<Longrightarrow> has_number w'"
  unfolding conversation_handlers_def
  by (cases "currentState w (msg_chat_id m)")
     (auto dest: has_number_ask_number has_number_ask_message has_number_yt
       has_number_download has_number_upload has_number_getfile has_number_ai)

lemma has_number_on_message:
  assumes "has_number w" and "on_message e w m = Some (Inr (w', acts))"
  shows "has_number w'"
proof (cases "conversation_handlers e w m")
  case None
  with assms(2) show ?thesis by (simp add: on_message_def)
next
  case (Some r)
  show ?thesis
  proof (cases r)
    case (Inl err)
    with Some assms(2) show ?thesis by (simp add: on_message_def)
  next
    case (Inr out)
    obtain fl w1 acts1 where out: "out = (fl, w1, acts1)" by (cases out) auto
    have w1: "has_number w1"
      using has_number_conversation[OF assms(1)] Some Inr out by simp
    show ?thesis
    proof (cases fl)
      case Return
      with Some Inr out assms(2) w1 show ?thesis by (simp add: on_message_def)
    next
      case FallThrough
      with Some Inr out assms(2)
      have "\<exists>acts2. command_handlers e (currentState w (msg_chat_id m)) w1 m = (w', acts2)"
        by (auto simp: on_message_def split: prod.splits)
      with w1 show ?thesis by (auto dest: has_number_command)
    qed
  qed
qed

lemma reachable_has_number: "reachable w \<Longrightarrow> has_number w"
proof (induction rule: reachable.induct)
  case (start fs)
  show ?case by (simp add: has_number_def)
next
  case (step w e m w' acts)
  then show ?case by (auto intro: has_number_on_message)
next
  case (store w fs)
  then show ?case by (simp add: has_number_def)
qed

lemma reachable_handle_all:
  "reachable w \<Longrightarrow> handle_all e w ms = Some (Inr (w', acts)) \<Longrightarrow> reachable w'"
proof (induction ms arbitrary: w w' acts)
  case Nil
  then show ?case by simp
next
  case (Cons m ms)
  from Cons.prems(2) obtain w1 a1 w2 a2 where
    1: "on_message e w m = Some (Inr (w1, a1))" and
    2: "handle_all e w1 ms = Some (Inr (w2, a2))" and 3: "w' = w2"
    by (auto split: option.splits sum.splits prod.splits)
  from Cons.prems(1) 1 have "reachable w1" by (rule reachable.step)
  from Cons.IH[OF this 2] 3 show ?case by simp
qed

lemma matches_number_nonempty: "matches_number n \<Longrightarrow> n \<noteq> []"
  by (auto simp: matches_number_def)

lemma command_keeps_files:
  "command_handlers e cur w m = (w', acts) \<Longrightarrow> files w' = files w"
  by (auto simp: command_handlers_def run_command_def Let_def delete_state_def
      delete_number_def set_state_def split: if_splits)

lemma command_sends_no_upload_reply:
  "command_handlers e cur w m = (w', acts) \<Longrightarrow>
     SendMessage c (UploadSuccess P) \<notin> set acts \<and> SendMessage c (UploadTooLarge s) \<notin> set acts"
  by (auto simp: command_handlers_def run_command_def Let_def split: if_splits)

lemma on_message_upload_wait:
  "currentState w (msg_chat_id m) = UPLOAD_WAIT_FILE \<Longrightarrow>
   on_message e w m =
     (case upload_wait_file e w m of
        None \<Rightarrow> None
      | Some (Inl err) \<Rightarrow> Some (Inl err)
      | Some (Inr (Return, w', acts)) \<Rightarrow> Some (Inr (w', acts))
      | Some (Inr (FallThrough, w', acts)) \<Rightarrow>
          (case command_handlers e UPLOAD_WAIT_FILE w' m of
             (w'', acts') \<Rightarrow> Some (Inr (w'', acts @ acts'))))"
  by (simp add: on_message_def conversation_handlers_def
      split: option.splits sum.splits flow.splits prod.splits)

lemma upload_rejects:
  assumes "currentState w (msg_chat_id m) = UPLOAD_WAIT_FILE"
    and "select_file m = Inr (Some (fo, ft, fn))"
    and "file_size fo = Some s" and "TELEGRAM_FILE_LIMIT < s"
  shows "on_message e w m
         = Some (Inr (delete_state (msg_chat_id m) w,
                      [SendMessage (msg_chat_id m) (UploadTooLarge s)]))"
  using assms
  by (simp add: on_message_upload_wait upload_wait_file_def truthy_num_def
      TELEGRAM_FILE_LIMIT_def Let_def)

lemma upload_accepts:
  assumes "currentState w (msg_chat_id m) = UPLOAD_WAIT_FILE"
    and "select_file m = Inr (Some (fo, ft, fn))"
    and "\<not> (truthy_num (file_size fo) \<and> TELEGRAM_FILE_LIMIT < the (file_size fo))"
    and "files_available e"
    and "generateUniquePin e (files w) 6 0 = Some P"
    and "msg_from_id m = Some uid" and "\<not> set_throws e"
    and "file_size fo \<noteq> None"
  shows "\<exists>w' acts'.
           on_message e w m
             = Some (Inr (w', SendMessage (msg_chat_id m) StoringFile
                              # SendMessage (msg_chat_id m) (UploadSuccess P) # acts'))
           \<and> files w' = (files w)(P \<mapsto> fileMetadata fo fn P uid)"
proof -
  obtain w2 acts2 where c: "command_handlers e UPLOAD_WAIT_FILE
      (delete_state (msg_chat_id m)
         (w\<lparr>files := (files w)(P \<mapsto> fileMetadata fo fn P uid)\<rparr>)) m = (w2, acts2)"
    by (cases "command_handlers e UPLOAD_WAIT_FILE
      (delete_state (msg_chat_id m)
         (w\<lparr>files := (files w)(P \<mapsto> fileMetadata fo fn P uid)\<rparr>)) m") auto
  from command_keeps_files[OF c]
  have f: "files w2 = (files w)(P \<mapsto> fileMetadata fo fn P uid)"
    by (simp add: delete_state_def)
  have "on_message e w m
        = Some (Inr (w2, SendMessage (msg_chat_id m) StoringFile
                         # SendMessage (msg_chat_id m) (UploadSuccess P) # acts2))"
    using assms c
    by (auto simp: on_message_upload_wait upload_wait_file_def store_file_def Let_def)
  with f show ?thesis by blast
qed



lemma getfile_found:
  assumes "currentState w (msg_chat_id m) = GETFILE_ASK_PIN"
    and "msg_text m = Some t" and "t \<noteq> []" and "\<not> startsWith t ''/''"
    and "files_available e" and "\<not> lookup_throws e"
    and "lookup_pin w t = Some md" and "md_file_id md = Some fid" and "fid \<noteq> []"
  shows "on_message e w m
         = Some (Inr (delete_state (msg_chat_id m) w,
              SendMessage (msg_chat_id m) (SearchingPin (normalize_pin t)) #
              (if TELEGRAM_FILE_LIMIT < or_num (md_file_size md) 0
               then [SendMessage (msg_chat_id m) (StoredTooLarge (or_num (md_file_size md) 0))]
               else [SendMessage (msg_chat_id m) DownloadingFile,
                     SendDocument (msg_chat_id m)
                       (ByFileId fid (or_str (md_file_name md) ''downloaded_file'')),
                     SendMessage (msg_chat_id m)
                       (if send_document_throws e = None then FileSent
                        else TelegramSendError)])))"
  using assms
  by (simp add: on_message_def conversation_handlers_def getfile_ask_pin_def
      send_stored_file_def command_handlers_def text_defs Let_def)

lemma upload_too_large_iff:
  assumes "currentState w (msg_chat_id m) = UPLOAD_WAIT_FILE"
    and "select_file m = Inr (Some (fo, ft, fn))"
  shows "(\<exists>w' acts s. on_message e w m = Some (Inr (w', acts))
            \<and> SendMessage (msg_chat_id m) (UploadTooLarge s) \<in> set acts)
         \<longleftrightarrow> (truthy_num (file_size fo) \<and> TELEGRAM_FILE_LIMIT < the (file_size fo))"
proof
  assume "truthy_num (file_size fo) \<and> TELEGRAM_FILE_LIMIT < the (file_size fo)"
  then obtain s where "file_size fo = Some s" "TELEGRAM_FILE_LIMIT < s"
    by (auto simp: truthy_num_def split: option.splits)
  from upload_rejects[OF assms this, of e]
  show "\<exists>w' acts s. on_message e w m = Some (Inr (w', acts))
            \<and> SendMessage (msg_chat_id m) (UploadTooLarge s) \<in> set acts"
    by auto
next
  assume "\<exists>w' acts s. on_message e w m = Some (Inr (w', acts))
            \<and> SendMessage (msg_chat_id m) (UploadTooLarge s) \<in> set acts"
  then obtain w' acts s where
    o: "on_message e w m = Some (Inr (w', acts))" and
    i: "SendMessage (msg_chat_id m) (UploadTooLarge s) \<in> set acts" by blast
  from o obtain r where u: "upload_wait_file e w m = Some (Inr r)"
    by (auto simp: on_message_upload_wait[OF assms(1)] split: option.splits sum.splits)
  obtain fl w1 acts1 where r: "r = (fl, w1, acts1)" by (cases r) auto
  show "truthy_num (file_size fo) \<and> TELEGRAM_FILE_LIMIT < the (file_size fo)"
  proof (cases fl)
    case Return
    with u r o have "acts = acts1"
      by (simp_all add: on_message_upload_wait[OF assms(1)])
    with u r Return i assms(2) show ?thesis
      by (auto simp: upload_wait_file_def store_file_def Let_def
          split: option.splits prod.splits if_splits)
  next
    case FallThrough
    with u r o obtain acts2 where
      c: "command_handlers e UPLOAD_WAIT_FILE w1 m = (w', acts2)" and a: "acts = acts1 @ acts2"
      by (auto simp: on_message_upload_wait[OF assms(1)] split: prod.splits)
    from command_sends_no_upload_reply[OF c] a i
    have "SendMessage (msg_chat_id m) (UploadTooLarge s) \<in> set acts1" by auto
    with u r FallThrough assms(2) show ?thesis
      by (auto simp: upload_wait_file_def store_file_def Let_def
          split: option.splits prod.splits if_splits)
  qed
qed

lemma limit_pos: "TELEGRAM_FILE_LIMIT \<noteq> 0"
  by (simp add: TELEGRAM_FILE_LIMIT_def)

lemma sample_select:
  "select_file (document_message c fid sz)
   = Inr (Some (sample_file fid sz, ''document'', ''a.bin''))"
  by (simp add: select_file_def document_message_def sample_file_def or_str_def
      truthy_str_def)

lemma sample_upload_state:
  "currentState (chat_in c UPLOAD_WAIT_FILE fs) (msg_chat_id (document_message c fid sz))
   = UPLOAD_WAIT_FILE"
  by (simp add: currentState_def chat_in_def document_message_def)

lemma cancel_outside_upload_wait:
  assumes "currentState w (msg_chat_id m) \<noteq> UPLOAD_WAIT_FILE"
    and "msg_text m = Some ''/cancel''"
  shows "\<exists>acts. on_message e w m
           = Some (Inr (delete_number (msg_chat_id m) (delete_state (msg_chat_id m) w), acts))"
  using assms
  by (cases "currentState w (msg_chat_id m)")
     (simp_all add: on_message_def conversation_handlers_def command_handlers_def
       run_command_def sendmsg_ask_number_def sendmsg_ask_message_def yt_ask_url_def
       download_ask_url_def getfile_ask_pin_def ai_ask_query_def text_defs
       delete_state_def delete_number_def Let_def)

text \<open>
  Wherever the request of a download ends, the handler's last call is the error message
  of the \<open>catch\<close> block: after an ok response line 203 throws, so the size test of line
  216 and the \<open>sendDocument\<close> of line 226 are never reached.
\<close>

lemma downloadFileFromUrl_reports_failure:
  "\<exists>msg. downloadFileFromUrl e url chatId
          = [SendMessage chatId DownloadStarted, FetchCall url,
             SendMessage chatId (DownloadFailed msg)]"
  by (simp add: downloadFileFromUrl_def createWriteStream_def split: fetch_outcome.splits)

lemma downloadFileFromUrl_never_sends:
  "SendDocument chatId src \<notin> set (downloadFileFromUrl e url chatId)"
  using downloadFileFromUrl_reports_failure[of e url chatId] by auto

text \<open>
  An attachment without declared size passes the size test of line 334, a PIN is
  generated for it, and the \<open>set\<close> of line 365 then refuses its document.
\<close>

lemma upload_without_size:
  assumes "currentState w (msg_chat_id m) = UPLOAD_WAIT_FILE"
    and "select_file m = Inr (Some (fo, ft, fn))"
    and "file_size fo = None" and "files_available e"
    and "generateUniquePin e (files w) 6 0 = Some P"
  shows "\<exists>w' acts'.
           on_message e w m
             = Some (Inr (w', SendMessage (msg_chat_id m) StoringFile
                              # SendMessage (msg_chat_id m) UploadError # acts'))
           \<and> files w' = files w"
proof -
  obtain w2 acts2 where c: "command_handlers e UPLOAD_WAIT_FILE
      (delete_state (msg_chat_id m) w) m = (w2, acts2)"
    by (cases "command_handlers e UPLOAD_WAIT_FILE (delete_state (msg_chat_id m) w) m") auto
  from command_keeps_files[OF c] have f: "files w2 = files w"
    by (simp add: delete_state_def)
  have "on_message e w m
        = Some (Inr (w2, SendMessage (msg_chat_id m) StoringFile
                         # SendMessage (msg_chat_id m) UploadError # acts2))"
    using assms c
    by (simp add: on_message_upload_wait upload_wait_file_def store_file_def Let_def
        truthy_num_def split: option.splits)
  with f show ?thesis by blast
qed

text \<open>
  An attachment whose declared size is zero passes the size test of line 334 as well,
  and its document is stored with that size.
\<close>

lemma upload_zero_size_stored:
  assumes "currentState w (msg_chat_id m) = UPLOAD_WAIT_FILE"
    and "select_file m = Inr (Some (fo, ft, fn))"
    and "file_size fo = Some 0" and "files_available e"
    and "generateUniquePin e (files w) 6 0 = Some P"
    and "msg_from_id m = Some uid" and "\<not> set_throws e"
  shows "\<exists>w' acts'.
           on_message e w m
             = Some (Inr (w', SendMessage (msg_chat_id m) StoringFile
                              # SendMessage (msg_chat_id m) (UploadSuccess P) # acts'))
           \<and> files w' P = Some (fileMetadata fo fn P uid)
           \<and> md_file_size (fileMetadata fo fn P uid) = Some 0"
proof -
  from assms(3)
  have "\<not> (truthy_num (file_size fo) \<and> TELEGRAM_FILE_LIMIT < the (file_size fo))"
    and "file_size fo \<noteq> None"
    by (simp_all add: truthy_num_def)
  from upload_accepts[OF assms(1,2) this(1) assms(4-7) this(2)] assms(3)
  show ?thesis by (auto simp: fileMetadata_def)
qed

section \<open>C1: PIN issuance by two executions at once\<close>

text \<open>
  Claim C1 says that two interleaved executions of PIN issuance that both return never
  return the same PIN, each attempt claiming its candidate by one atomic
  create-if-absent write. The code checks with a read (\<open>isPinUnique\<close>, line 105) and
  writes later (line 365). Counterexample to C1: two uploads \<open>A\<close> and \<open>B\<close> draw the same
  candidate; \<open>A\<close> reads, \<open>B\<close> reads, \<open>A\<close> writes, \<open>B\<close> writes. Both issuances return
  \<open>AAAAAA\<close>, and the record of \<open>A\<close> is overwritten by that of \<open>B\<close>.
\<close>

theorem interleaved_issuance_same_pin_counterexample:
  "interleave sample_env (\<lambda>pin. fileMetadata (sample_file ''fileA'' (Some 10)) ''a.bin'' pin 1)
              sample_env (\<lambda>pin. fileMetadata (sample_file ''fileB'' (Some 20)) ''b.bin'' pin 2)
     [True, False, True, False] (Map.empty, Checking 0, Checking 0)
   = ([''AAAAAA'' \<mapsto> fileMetadata (sample_file ''fileB'' (Some 20)) ''b.bin'' ''AAAAAA'' 2],
      Written ''AAAAAA'', Written ''AAAAAA'')"
  by (simp add: generatePin_all_zero[of 0, simplified] isPinUnique_def)
     (simp add: sample_env_def)

text \<open>
  Claim C1 as amended: an attempt only reads the collection (a step from \<open>Checking\<close>
  leaves it as it is), the PIN returned is the id of no document at that moment, and two
  issuances that run one after the other, the first one's record written before the
  second one starts, return different PINs.
\<close>

theorem sequential_issuance_distinct:
  assumes "generateUniquePin e1 fs len1 k1 = Some p1"
    and "generateUniquePin e2 (fs(p1 \<mapsto> md)) len2 k2 = Some p2"
  shows "fs p1 = None \<and> p1 \<noteq> p2
         \<and> fst (issuance_step e1 mk (fs, Checking k)) = fs"
proof -
  from gup_Some[OF assms(1)] have 1: "fs p1 = None"
    by (auto simp: attempt_ok_def isPinUnique_def split: if_splits)
  from gup_Some[OF assms(2)] have "(fs(p1 \<mapsto> md)) p2 = None"
    by (auto simp: attempt_ok_def isPinUnique_def split: if_splits)
  then have "p1 \<noteq> p2" by (auto split: if_splits)
  with 1 show ?thesis by simp
qed

theorem sequential_issuance_distinct_witness:
  "generateUniquePin sample_env Map.empty 6 0 = Some ''AAAAAA''
   \<and> generateUniquePin (sample_env\<lparr>rnd := (\<lambda>i. if i = 0 then 1 else 0)\<rparr>)
        [''AAAAAA'' \<mapsto> sample_record ''f1'' (Some 10)] 6 0 = Some ''BAAAAA''
   \<and> Map.empty ''AAAAAA'' = (None :: file_metadata option) \<and> ''AAAAAA'' \<noteq> ''BAAAAA''
   \<and> fst (issuance_step sample_env (\<lambda>pin. sample_record ''f1'' (Some 10))
             (Map.empty, Checking 0)) = Map.empty"
proof -
  let ?e2 = "sample_env\<lparr>rnd := (\<lambda>i. if i = 0 then 1 else 0)\<rparr>"
  let ?md = "sample_record ''f1'' (Some 10)"
  have a: "generateUniquePin sample_env Map.empty 6 0 = Some ''AAAAAA''"
    by code_simp
  have b: "generateUniquePin ?e2 (Map.empty(''AAAAAA'' \<mapsto> ?md)) 6 0 = Some ''BAAAAA''"
    by code_simp
  show ?thesis
    using a b sequential_issuance_distinct[OF a b, of "\<lambda>pin. ?md" 0]
    by simp
qed

section \<open>C2: the retry loop of PIN issuance\<close>

text \<open>
  Claim C2 says that PIN issuance always ends, failing with \<open>RegistryExhausted\<close> after a
  bounded number of attempts when every candidate is taken. Counterexample to C2: with
  every draw 0 every candidate is \<open>AAAAAA\<close>; once a document has that id,
  \<open>generateUniquePin\<close> never returns, and neither does the handler of the upload.
\<close>

theorem generateUniquePin_unbounded_counterexample:
  "generateUniquePin sample_env [''AAAAAA'' \<mapsto> sample_record ''f1'' (Some 10)] 6 0 = None
   \<and> on_message sample_env
        (chat_in 7 UPLOAD_WAIT_FILE [''AAAAAA'' \<mapsto> sample_record ''f1'' (Some 10)])
        (document_message 7 ''f2'' (Some 10)) = None"
proof -
  have no: "\<not> attempt_ok sample_env [''AAAAAA'' \<mapsto> md] 6 j" for j md
    by (simp add: attempt_ok_def isPinUnique_def candidate_all_zero)
  then have n: "generateUniquePin sample_env [''AAAAAA'' \<mapsto> sample_record ''f1'' (Some 10)] 6 0 = None"
    by (intro gup_None) simp
  have "on_message sample_env
        (chat_in 7 UPLOAD_WAIT_FILE [''AAAAAA'' \<mapsto> sample_record ''f1'' (Some 10)])
        (document_message 7 ''f2'' (Some 10)) = None"
    by (simp add: on_message_def conversation_handlers_def currentState_def chat_in_def
        document_message_def upload_wait_file_def select_file_def sample_file_def
        truthy_num_def TELEGRAM_FILE_LIMIT_def n)
       (simp add: sample_env_def)
  with n show ?thesis by simp
qed

text \<open>
  Claim C2 as amended: \<open>generateUniquePin\<close> returns exactly when \<open>isPinUnique\<close> accepts
  the candidate of some round, and it then returns the candidate of the first such
  round; when no round's candidate is accepted it never returns. There is no bound on
  the rounds and no failure value.
\<close>

theorem generateUniquePin_first_free_candidate:
  "generateUniquePin e fs len k =
     (if \<exists>j\<ge>k. attempt_ok e fs len j
      then Some (candidate e len (LEAST j. k \<le> j \<and> attempt_ok e fs len j))
      else None)"
proof (cases "\<exists>j\<ge>k. attempt_ok e fs len j")
  case False
  then show ?thesis using gup_None[of k e fs len] by simp
next
  case True
  define P where "P j \<longleftrightarrow> k \<le> j \<and> attempt_ok e fs len j" for j
  from True have ex: "\<exists>j. P j" by (auto simp: P_def)
  define n where "n = (LEAST j. P j)"
  have Pn: "P n" unfolding n_def using ex by (metis LeastI)
  have least: "\<And>j. j < n \<Longrightarrow> \<not> P j" unfolding n_def by (rule not_less_Least)
  from Pn have kn: "k \<le> n" by (simp add: P_def)
  then obtain d where d: "n = k + d" by (metis le_Suc_ex)
  have "\<forall>j<d. \<not> attempt_ok e fs len (k + j)"
    using least d by (auto simp: P_def)
  moreover have "attempt_ok e fs len (k + d)" using Pn d by (simp add: P_def)
  ultimately have "generateUniquePin e fs len k = Some (candidate e len (k + d))"
    by (rule gup_first[rotated])
  with True d show ?thesis by (simp add: n_def P_def)
qed

theorem generateUniquePin_first_free_candidate_witness:
  "generateUniquePin sample_env Map.empty 6 0 = Some ''AAAAAA''
   \<and> generateUniquePin sample_env [''AAAAAA'' \<mapsto> sample_record ''f1'' (Some 10)] 6 2 = None"
proof -
  have ok: "attempt_ok sample_env Map.empty 6 j" for j
    by (simp add: attempt_ok_def isPinUnique_def sample_env_def)
  have l: "(LEAST j. attempt_ok sample_env Map.empty 6 j) = 0"
    using ok by (simp add: Least_eq_0)
  have no: "\<not> attempt_ok sample_env [''AAAAAA'' \<mapsto> md] 6 j" for j md
    by (simp add: attempt_ok_def isPinUnique_def candidate_all_zero)
  show ?thesis
    using generateUniquePin_first_free_candidate[of sample_env Map.empty 6 0]
      generateUniquePin_first_free_candidate
        [of sample_env "[''AAAAAA'' \<mapsto> sample_record ''f1'' (Some 10)]" 6 2]
    by (simp add: ok l no candidate_all_zero)
qed

section \<open>C3: \<open>/cancel\<close>\<close>

text \<open>
  Claim C3 says that \<open>/cancel\<close> takes every state other than \<open>NONE\<close> to \<open>NONE\<close> and clears
  the pending data, in particular from the state that waits for an upload. In every
  other state it does (\<open>cancel_outside_upload_wait\<close>). In state \<open>UPLOAD_WAIT_FILE\<close> a
  text message has no attachment, so line 330 returns before the command handlers of
  line 474 are reached: after \<open>/upload_file\<close> and \<open>/cancel\<close> the chat is still in
  \<open>UPLOAD_WAIT_FILE\<close>, and the reply to \<open>/cancel\<close> is the request for a file.
\<close>

theorem cancel_during_upload_wait_ignored:
  "handle_all sample_env fresh [text_message 7 ''/upload_file'', text_message 7 ''/cancel'']
   = Some (Inr (chat_in 7 UPLOAD_WAIT_FILE Map.empty,
                [SendMessage 7 SendFilePrompt, SendMessage 7 ValidFilePlease]))"
  by (simp add: on_message_def conversation_handlers_def command_handlers_def
      run_command_def upload_wait_file_def select_file_def world_defs text_defs sample_defs)

section \<open>C4: a PIN resolves to the file it was issued for\<close>



section \<open>C5: the size boundary\<close>

text \<open>
  Claim C5: an upload whose declared size is exactly \<open>50 * 1024 * 1024\<close> is stored under
  a PIN (when the collection is there, a PIN is issued, the sender is known and the
  write goes through), and one byte more is answered with the too-large message and
  stores nothing. On the way back a stored document of exactly that size is sent, and
  one of one byte more is reported as too large and not sent.
\<close>

theorem size_boundary:
  "(currentState w (msg_chat_id m) = UPLOAD_WAIT_FILE
      \<and> select_file m = Inr (Some (fo, ft, fn)) \<longrightarrow>
      (file_size fo = Some TELEGRAM_FILE_LIMIT \<and> files_available e
         \<and> generateUniquePin e (files w) 6 0 = Some P
         \<and> msg_from_id m = Some uid \<and> \<not> set_throws e \<longrightarrow>
         (\<exists>w' acts'.
            on_message e w m
              = Some (Inr (w', SendMessage (msg_chat_id m) StoringFile
                               # SendMessage (msg_chat_id m) (UploadSuccess P) # acts'))
            \<and> files w' = (files w)(P \<mapsto> fileMetadata fo fn P uid)))
      \<and> (file_size fo = Some (TELEGRAM_FILE_LIMIT + 1) \<longrightarrow>
           on_message e w m
             = Some (Inr (delete_state (msg_chat_id m) w,
                          [SendMessage (msg_chat_id m)
                             (UploadTooLarge (TELEGRAM_FILE_LIMIT + 1))]))
           \<and> files (delete_state (msg_chat_id m) w) = files w))
   \<and> (currentState w (msg_chat_id m) = GETFILE_ASK_PIN
        \<and> msg_text m = Some t \<and> t \<noteq> [] \<and> \<not> startsWith t ''/''
        \<and> files_available e \<and> \<not> lookup_throws e
        \<and> lookup_pin w t = Some md \<and> md_file_id md = Some fid \<and> fid \<noteq> [] \<longrightarrow>
      (md_file_size md = Some TELEGRAM_FILE_LIMIT \<longrightarrow>
           on_message e w m
             = Some (Inr (delete_state (msg_chat_id m) w,
                  [SendMessage (msg_chat_id m) (SearchingPin (normalize_pin t)),
                   SendMessage (msg_chat_id m) DownloadingFile,
                   SendDocument (msg_chat_id m)
                     (ByFileId fid (or_str (md_file_name md) ''downloaded_file'')),
                   SendMessage (msg_chat_id m)
                     (if send_document_throws e = None then FileSent
                      else TelegramSendError)])))
      \<and> (md_file_size md = Some (TELEGRAM_FILE_LIMIT + 1) \<longrightarrow>
           on_message e w m
             = Some (Inr (delete_state (msg_chat_id m) w,
                  [SendMessage (msg_chat_id m) (SearchingPin (normalize_pin t)),
                   SendMessage (msg_chat_id m)
                     (StoredTooLarge (TELEGRAM_FILE_LIMIT + 1))]))))"
proof -
  have up_ok: "\<exists>w' acts'.
            on_message e w m
              = Some (Inr (w', SendMessage (msg_chat_id m) StoringFile
                               # SendMessage (msg_chat_id m) (UploadSuccess P) # acts'))
            \<and> files w' = (files w)(P \<mapsto> fileMetadata fo fn P uid)"
    if "currentState w (msg_chat_id m) = UPLOAD_WAIT_FILE"
      "select_file m = Inr (Some (fo, ft, fn))"
      "file_size fo = Some TELEGRAM_FILE_LIMIT" "files_available e"
      "generateUniquePin e (files w) 6 0 = Some P" "msg_from_id m = Some uid"
      "\<not> set_throws e"
    using that by (intro upload_accepts) simp_all
  have up_no: "on_message e w m
             = Some (Inr (delete_state (msg_chat_id m) w,
                          [SendMessage (msg_chat_id m)
                             (UploadTooLarge (TELEGRAM_FILE_LIMIT + 1))]))"
    if "currentState w (msg_chat_id m) = UPLOAD_WAIT_FILE"
      "select_file m = Inr (Some (fo, ft, fn))"
      "file_size fo = Some (TELEGRAM_FILE_LIMIT + 1)"
    using that by (intro upload_rejects) simp_all
  have get: "on_message e w m
         = Some (Inr (delete_state (msg_chat_id m) w,
              SendMessage (msg_chat_id m) (SearchingPin (normalize_pin t)) #
              (if TELEGRAM_FILE_LIMIT < or_num (md_file_size md) 0
               then [SendMessage (msg_chat_id m) (StoredTooLarge (or_num (md_file_size md) 0))]
               else [SendMessage (msg_chat_id m) DownloadingFile,
                     SendDocument (msg_chat_id m)
                       (ByFileId fid (or_str (md_file_name md) ''downloaded_file'')),
                     SendMessage (msg_chat_id m)
                       (if send_document_throws e = None then FileSent
                        else TelegramSendError)])))"
    if "currentState w (msg_chat_id m) = GETFILE_ASK_PIN"
      "msg_text m = Some t" "t \<noteq> []" "\<not> startsWith t ''/''"
      "files_available e" "\<not> lookup_throws e"
      "lookup_pin w t = Some md" "md_file_id md = Some fid" "fid \<noteq> []"
    using that by (rule getfile_found)
  have at: "or_num (Some TELEGRAM_FILE_LIMIT) 0 = TELEGRAM_FILE_LIMIT"
    and over: "or_num (Some (TELEGRAM_FILE_LIMIT + 1)) 0 = TELEGRAM_FILE_LIMIT + 1"
    by (simp_all add: or_num_def truthy_num_def limit_pos)
  show ?thesis
    using up_ok up_no get at over
    by (simp add: delete_state_def)
qed

theorem size_boundary_witness:
  "(\<exists>w' acts'.
      on_message sample_env (chat_in 7 UPLOAD_WAIT_FILE Map.empty)
        (document_message 7 ''f1'' (Some TELEGRAM_FILE_LIMIT))
      = Some (Inr (w', SendMessage 7 StoringFile
                       # SendMessage 7 (UploadSuccess ''AAAAAA'') # acts'))
      \<and> files w' = [''AAAAAA'' \<mapsto>
            fileMetadata (sample_file ''f1'' (Some TELEGRAM_FILE_LIMIT)) ''a.bin'' ''AAAAAA'' 1])
   \<and> on_message sample_env (chat_in 7 UPLOAD_WAIT_FILE Map.empty)
        (document_message 7 ''f1'' (Some (TELEGRAM_FILE_LIMIT + 1)))
      = Some (Inr (delete_state 7 (chat_in 7 UPLOAD_WAIT_FILE Map.empty),
                   [SendMessage 7 (UploadTooLarge (TELEGRAM_FILE_LIMIT + 1))]))
   \<and> on_message sample_env
        (chat_in 7 GETFILE_ASK_PIN
           [''AAAAAA'' \<mapsto> sample_record ''f1'' (Some TELEGRAM_FILE_LIMIT)])
        (text_message 7 ''aaaaaa'')
      = Some (Inr (delete_state 7 (chat_in 7 GETFILE_ASK_PIN
                     [''AAAAAA'' \<mapsto> sample_record ''f1'' (Some TELEGRAM_FILE_LIMIT)]),
                   [SendMessage 7 (SearchingPin ''AAAAAA''),
                    SendMessage 7 DownloadingFile,
                    SendDocument 7 (ByFileId ''f1'' ''a.bin''),
                    SendMessage 7 FileSent]))
   \<and> on_message sample_env
        (chat_in 7 GETFILE_ASK_PIN
           [''AAAAAA'' \<mapsto> sample_record ''f1'' (Some (TELEGRAM_FILE_LIMIT + 1))])
        (text_message 7 ''aaaaaa'')
      = Some (Inr (delete_state 7 (chat_in 7 GETFILE_ASK_PIN
                     [''AAAAAA'' \<mapsto> sample_record ''f1'' (Some (TELEGRAM_FILE_LIMIT + 1))]),
                   [SendMessage 7 (SearchingPin ''AAAAAA''),
                    SendMessage 7 (StoredTooLarge (TELEGRAM_FILE_LIMIT + 1))]))"
proof -
  let ?up = "chat_in 7 UPLOAD_WAIT_FILE Map.empty"
  have env: "files_available sample_env" "\<not> set_throws sample_env"
    "\<not> lookup_throws sample_env" "send_document_throws sample_env = None"
    by (simp_all add: sample_env_def)
  have doc: "msg_chat_id (document_message 7 fid sz) = 7"
    "msg_from_id (document_message 7 fid sz) = Some 1" for fid sz
    by (simp_all add: document_message_def)
  have fo: "file_size (sample_file fid sz) = sz" for fid sz
    by (simp add: sample_file_def)
  have up: "files ?up = Map.empty" by (simp add: chat_in_def)
  have msg: "msg_chat_id (text_message 7 t) = 7" "msg_text (text_message 7 t) = Some t" for t
    by (simp_all add: text_message_def)
  have get: "currentState (chat_in 7 GETFILE_ASK_PIN fs) 7 = GETFILE_ASK_PIN"
    "lookup_pin (chat_in 7 GETFILE_ASK_PIN [''AAAAAA'' \<mapsto> r]) ''aaaaaa'' = Some r" for fs r
    by (simp_all add: currentState_def chat_in_def lookup_pin_def sample_normalize)
  have rec: "md_file_id (sample_record fid sz) = Some fid"
    "md_file_size (sample_record fid sz) = sz"
    "or_str (md_file_name (sample_record fid sz)) ''downloaded_file'' = ''a.bin''" for fid sz
    by (simp_all add: sample_record_def or_str_def truthy_str_def)
  note facts = env doc fo up msg get rec sample_pin sample_select sample_normalize
    sample_upload_state[of 7, simplified doc] startsWith_def
  show ?thesis
    using size_boundary[where w = ?up
        and m = "document_message 7 ''f1'' (Some TELEGRAM_FILE_LIMIT)"
        and fo = "sample_file ''f1'' (Some TELEGRAM_FILE_LIMIT)"
        and ft = "''document''" and fn = "''a.bin''"
        and e = sample_env and P = "''AAAAAA''" and uid = 1]
      size_boundary[where w = ?up
        and m = "document_message 7 ''f1'' (Some (TELEGRAM_FILE_LIMIT + 1))"
        and fo = "sample_file ''f1'' (Some (TELEGRAM_FILE_LIMIT + 1))"
        and ft = "''document''" and fn = "''a.bin''" and e = sample_env]
      size_boundary[where w = "chat_in 7 GETFILE_ASK_PIN
             [''AAAAAA'' \<mapsto> sample_record ''f1'' (Some TELEGRAM_FILE_LIMIT)]"
        and m = "text_message 7 ''aaaaaa''" and t = "''aaaaaa''" and e = sample_env
        and md = "sample_record ''f1'' (Some TELEGRAM_FILE_LIMIT)" and fid = "''f1''"]
      size_boundary[where w = "chat_in 7 GETFILE_ASK_PIN
             [''AAAAAA'' \<mapsto> sample_record ''f1'' (Some (TELEGRAM_FILE_LIMIT + 1))]"
        and m = "text_message 7 ''aaaaaa''" and t = "''aaaaaa''" and e = sample_env
        and md = "sample_record ''f1'' (Some (TELEGRAM_FILE_LIMIT + 1))" and fid = "''f1''"]
    by (simp add: facts)
qed

section \<open>C6: the pending number after a command\<close>

text \<open>
  Claim C6 says that the stored phone number is cleared whenever the chat leaves the
  send-message flow, also through another command. Completion (lines 290-291) and
  \<open>/cancel\<close> (lines 528-529) delete it; the other command handlers (lines 497-526) only
  set the state. After \<open>/sendmsg\<close>, a number and \<open>/download_url\<close> the chat is in
  \<open>DOWNLOAD_ASK_URL\<close> and the number is still stored.
\<close>

theorem number_kept_after_command_override:
  "handle_all sample_env fresh
     [text_message 7 ''/sendmsg'', text_message 7 ''94712345678'',
      text_message 7 ''/download_url'']
   = Some (Inr (\<lparr>userStates = [7 \<mapsto> DOWNLOAD_ASK_URL],
                  userNumbers = [7 \<mapsto> ''94712345678''], files = Map.empty\<rparr>,
                [SendMessage 7 EnterNumberPrompt, SendMessage 7 EnterMessagePrompt,
                 SendMessage 7 EnterMessagePlease, SendMessage 7 EnterUrlPrompt]))"
  by (simp add: on_message_def conversation_handlers_def command_handlers_def
      run_command_def sendmsg_ask_number_def sendmsg_ask_message_def
      matches_number_def is_digit_def world_defs text_defs sample_defs)

section \<open>C7: the URL download\<close>




section \<open>C8: relaying the message\<close>

text \<open>
  Claim C8: in state \<open>SENDMSG_ASK_MESSAGE\<close> of a reachable world, for every text that
  is not a command, the relay is called with the stored number and the text; the user is
  told that the message was sent when the relay answers with an ok response whose status
  is \<open>success\<close>, and that it failed in every other case (the call throws, the response
  is not ok, the status is another one or is missing); and the state and the stored
  number are deleted whatever the relay answered.
\<close>

theorem ask_message_relays_and_clears:
  assumes "reachable w"
    and "currentState w (msg_chat_id m) = SENDMSG_ASK_MESSAGE"
    and "msg_text m = Some t" and "t \<noteq> []" and "\<not> startsWith t ''/''"
  shows "\<exists>n. userNumbers w (msg_chat_id m) = Some n
           \<and> on_message e w m
               = Some (Inr (delete_number (msg_chat_id m) (delete_state (msg_chat_id m) w),
                            [SendMessage (msg_chat_id m) SendingMessage,
                             RelayCall n t,
                             SendMessage (msg_chat_id m)
                               (if relay_api e n t = ApiStatus (Some ''success'')
                                then MessageSent else MessageFailed)]))
           \<and> currentState (delete_number (msg_chat_id m) (delete_state (msg_chat_id m) w))
                 (msg_chat_id m) = NONE
           \<and> userNumbers (delete_number (msg_chat_id m) (delete_state (msg_chat_id m) w))
                 (msg_chat_id m) = None"
proof -
  from assms(2) have st: "userStates w (msg_chat_id m) = Some SENDMSG_ASK_MESSAGE"
    by (auto simp: currentState_def split: option.splits)
  with reachable_has_number[OF assms(1)] obtain n where
    n: "userNumbers w (msg_chat_id m) = Some n" "matches_number n"
    by (auto simp: has_number_def)
  from n(2) have ne: "n \<noteq> []" by (rule matches_number_nonempty)
  have sent: "sendMessageViaApi e n t \<longleftrightarrow> relay_api e n t = ApiStatus (Some ''success'')"
    by (cases "relay_api e n t") (simp_all add: sendMessageViaApi_def)
  have "on_message e w m
        = Some (Inr (delete_number (msg_chat_id m) (delete_state (msg_chat_id m) w),
                     [SendMessage (msg_chat_id m) SendingMessage,
                      RelayCall n t,
                      SendMessage (msg_chat_id m)
                        (if relay_api e n t = ApiStatus (Some ''success'')
                         then MessageSent else MessageFailed)]))"
    using assms(2-5) n(1) ne
    by (simp add: on_message_def conversation_handlers_def sendmsg_ask_message_def
        command_handlers_def text_defs Let_def sent)
  with n(1) show ?thesis
    by (simp add: delete_number_def delete_state_def currentState_def)
qed

theorem ask_message_relays_and_clears_witness:
  "reachable \<lparr>userStates = [7 \<mapsto> SENDMSG_ASK_MESSAGE],
              userNumbers = [7 \<mapsto> ''94712345678''], files = Map.empty\<rparr>
   \<and> on_message sample_env
        \<lparr>userStates = [7 \<mapsto> SENDMSG_ASK_MESSAGE],
         userNumbers = [7 \<mapsto> ''94712345678''], files = Map.empty\<rparr>
        (text_message 7 ''hello'')
       = Some (Inr (fresh, [SendMessage 7 SendingMessage,
                            RelayCall ''94712345678'' ''hello'',
                            SendMessage 7 MessageSent]))
   \<and> on_message (sample_env\<lparr>relay_api := (\<lambda>_ _. ApiNotOk)\<rparr>)
        \<lparr>userStates = [7 \<mapsto> SENDMSG_ASK_MESSAGE],
         userNumbers = [7 \<mapsto> ''94712345678''], files = Map.empty\<rparr>
        (text_message 7 ''hello'')
       = Some (Inr (fresh, [SendMessage 7 SendingMessage,
                            RelayCall ''94712345678'' ''hello'',
                            SendMessage 7 MessageFailed]))
   \<and> on_message (sample_env\<lparr>relay_api := (\<lambda>_ _. ApiStatus (Some ''error''))\<rparr>)
        \<lparr>userStates = [7 \<mapsto> SENDMSG_ASK_MESSAGE],
         userNumbers = [7 \<mapsto> ''94712345678''], files = Map.empty\<rparr>
        (text_message 7 ''hello'')
       = Some (Inr (fresh, [SendMessage 7 SendingMessage,
                            RelayCall ''94712345678'' ''hello'',
                            SendMessage 7 MessageFailed]))"
proof -
  let ?w = "\<lparr>userStates = [7 \<mapsto> SENDMSG_ASK_MESSAGE],
             userNumbers = [7 \<mapsto> ''94712345678''], files = Map.empty\<rparr>"
  let ?e1 = "sample_env\<lparr>relay_api := (\<lambda>_ _. ApiNotOk)\<rparr>"
  let ?e2 = "sample_env\<lparr>relay_api := (\<lambda>_ _. ApiStatus (Some ''error''))\<rparr>"
  have "handle_all sample_env fresh
          [text_message 7 ''/sendmsg'', text_message 7 ''94712345678'']
        = Some (Inr (?w, [SendMessage 7 EnterNumberPrompt, SendMessage 7 EnterMessagePrompt]))"
    by (simp add: on_message_def conversation_handlers_def command_handlers_def
        run_command_def sendmsg_ask_number_def matches_number_def is_digit_def
        world_defs text_defs sample_defs)
  moreover have "reachable fresh" unfolding fresh_def by (rule reachable.start)
  ultimately have r: "reachable ?w" by (rule reachable_handle_all[rotated])
  have s: "currentState ?w (msg_chat_id (text_message 7 ''hello'')) = SENDMSG_ASK_MESSAGE"
    by (simp add: currentState_def text_message_def)
  have t: "msg_text (text_message 7 ''hello'') = Some ''hello''"
    by (simp add: text_message_def)
  show ?thesis
    using r ask_message_relays_and_clears[OF r s t, of sample_env]
      ask_message_relays_and_clears[OF r s t, of ?e1]
      ask_message_relays_and_clears[OF r s t, of ?e2]
    by (simp add: startsWith_def text_message_def sample_env_def
        fresh_def delete_number_def delete_state_def)
qed

section \<open>C9: asking for the number\<close>

text \<open>
  Claim C9 says that in state \<open>SENDMSG_ASK_NUMBER\<close> every text that does not match
  \<open>^\d{10,}$\<close> is answered with the prompt and leaves the state unchanged.
  Counterexample to C9: \<open>/cancel\<close> does not match; it is answered with the prompt, and
  then the command handler of line 527 deletes the state.
\<close>

theorem command_in_ask_number_counterexample:
  "\<not> matches_number ''/cancel''
   \<and> on_message sample_env (chat_in 7 SENDMSG_ASK_NUMBER Map.empty) (text_message 7 ''/cancel'')
       = Some (Inr (fresh, [SendMessage 7 ValidNumberPlease, SendMessage 7 Cancelled]))
   \<and> currentState fresh 7 \<noteq> SENDMSG_ASK_NUMBER"
  by (simp add: on_message_def conversation_handlers_def command_handlers_def
      run_command_def sendmsg_ask_number_def matches_number_def world_defs text_defs
      sample_defs)

text \<open>
  Claim C9 as amended: in state \<open>SENDMSG_ASK_NUMBER\<close>, for every text that does not
  start with \<open>/\<close>: when it matches \<open>^\d{10,}$\<close> it is stored as the chat's number and the
  state becomes \<open>SENDMSG_ASK_MESSAGE\<close>; when it does not match, the user is asked again
  and nothing changes.
\<close>

theorem ask_number_plain_text:
  assumes "currentState w (msg_chat_id m) = SENDMSG_ASK_NUMBER"
    and "msg_text m = Some t" and "\<not> startsWith t ''/''"
  shows "(matches_number t \<longrightarrow>
           on_message e w m
             = Some (Inr (set_number (msg_chat_id m) t
                            (set_state (msg_chat_id m) SENDMSG_ASK_MESSAGE w),
                          [SendMessage (msg_chat_id m) EnterMessagePrompt]))
           \<and> userNumbers (set_number (msg_chat_id m) t
                  (set_state (msg_chat_id m) SENDMSG_ASK_MESSAGE w)) (msg_chat_id m) = Some t
           \<and> currentState (set_number (msg_chat_id m) t
                  (set_state (msg_chat_id m) SENDMSG_ASK_MESSAGE w)) (msg_chat_id m)
               = SENDMSG_ASK_MESSAGE)
         \<and> (\<not> matches_number t \<longrightarrow>
           on_message e w m
             = Some (Inr (w, [SendMessage (msg_chat_id m)
                                (if t = [] then ValidNumberPlease else ValidNumberExample)])))"
  using assms
  by (auto simp add: on_message_def conversation_handlers_def command_handlers_def
      sendmsg_ask_number_def world_defs text_defs Let_def matches_number_def)

theorem ask_number_plain_text_witness:
  "on_message sample_env (chat_in 7 SENDMSG_ASK_NUMBER Map.empty)
     (text_message 7 ''94712345678'')
   = Some (Inr (\<lparr>userStates = [7 \<mapsto> SENDMSG_ASK_MESSAGE],
                  userNumbers = [7 \<mapsto> ''94712345678''], files = Map.empty\<rparr>,
                [SendMessage 7 EnterMessagePrompt]))
   \<and> on_message sample_env (chat_in 7 SENDMSG_ASK_NUMBER Map.empty)
       (text_message 7 ''12345'')
     = Some (Inr (chat_in 7 SENDMSG_ASK_NUMBER Map.empty,
                  [SendMessage 7 ValidNumberExample]))"
proof -
  let ?w = "chat_in 7 SENDMSG_ASK_NUMBER Map.empty"
  have s: "currentState ?w (msg_chat_id (text_message 7 t)) = SENDMSG_ASK_NUMBER" for t
    by (simp add: currentState_def chat_in_def text_message_def)
  have t: "msg_text (text_message 7 t) = Some t" for t
    by (simp add: text_message_def)
  have p: "\<not> startsWith ''94712345678'' ''/''" "\<not> startsWith ''12345'' ''/''"
    by (simp_all add: startsWith_def)
  have d: "matches_number ''94712345678''" "\<not> matches_number ''12345''"
    by (simp_all add: matches_number_def is_digit_def)
  show ?thesis
    using ask_number_plain_text[OF s t p(1), of sample_env]
      ask_number_plain_text[OF s t p(2), of sample_env] d
    by (simp add: text_message_def chat_in_def set_number_def set_state_def)
qed

section \<open>C10: the size test of the upload\<close>

text \<open>
  Claim C10 says that in state \<open>UPLOAD_WAIT_FILE\<close> an attachment is rejected as too large
  exactly when its declared size is there and greater than \<open>50 * 1024 * 1024\<close>, and that
  an attachment whose size is absent or zero is bound to a PIN, its record created with
  no size validation. The first part holds (\<open>upload_too_large_iff\<close>), and so does the
  second for a size of zero (\<open>upload_zero_size_stored\<close>). For an absent size the code
  passes the test of line 334 and writes \<open>file_size: undefined\<close> into the document
  (line 359), which the \<open>set\<close> of line 365 refuses: after \<open>/upload_file\<close> and a document
  without declared size the user is told that the upload failed, and the collection
  holds no record (\<open>upload_without_size\<close> in general).
\<close>

theorem upload_without_size_not_stored:
  "handle_all sample_env fresh
     [text_message 7 ''/upload_file'', document_message 7 ''f1'' None]
   = Some (Inr (fresh, [SendMessage 7 SendFilePrompt, SendMessage 7 StoringFile,
                        SendMessage 7 UploadError]))"
proof -
  let ?w = "chat_in 7 UPLOAD_WAIT_FILE Map.empty"
  let ?m = "document_message 7 ''f1'' None"
  have 1: "on_message sample_env fresh (text_message 7 ''/upload_file'')
           = Some (Inr (?w, [SendMessage 7 SendFilePrompt]))"
    by (simp add: on_message_def conversation_handlers_def command_handlers_def
        run_command_def world_defs text_defs sample_defs)
  have f: "files ?w = Map.empty" "msg_chat_id ?m = 7" "msg_from_id ?m = Some 1"
    "msg_text ?m = None" "files_available sample_env"
    "file_size (sample_file ''f1'' None) = None"
    by (simp_all add: chat_in_def document_message_def sample_env_def sample_file_def)
  have 2: "on_message sample_env ?w ?m
           = Some (Inr (fresh, [SendMessage 7 StoringFile, SendMessage 7 UploadError]))"
    by (simp add: on_message_upload_wait[OF sample_upload_state] upload_wait_file_def
        sample_select f sample_pin store_file_def truthy_num_def command_handlers_def
        command_text_def truthy_str_def Let_def)
       (simp add: chat_in_def delete_state_def fresh_def)
  from 1 2 show ?thesis by simp
qed

end
